theory Spec2Isabelle
  imports Complex_Main "HOL-Library.AList"
begin

section \<open>Python values\<close>

text \<open>
  A Python \<open>str\<close> is a sequence of Unicode code points, and \<open>len\<close> counts code
  points; a string is therefore a list of natural numbers. \<open>py\<close> turns a literal of
  the source into that representation.
\<close>

type_synonym pystr = "nat list"

definition py :: "string \<Rightarrow> pystr" where
  "py s = map of_char s"

text \<open>
  Python floats: the three special values and the finite ones. A finite double is a
  rational number; the pipeline only compares floats and never does arithmetic on them,
  so the finite values are kept as rationals (rounding to the nearest double is not
  modelled: it is monotone and exact on 0 and 1, the only bounds compared against).
\<close>

datatype pyfloat = NaN | PosInf | NegInf | Finite rat

text \<open>What \<open>json.loads\<close> can produce, and what the handlers return.\<close>

datatype pyval =
    PNone
  | PBool bool
  | PInt int
  | PFloat pyfloat
  | PStr pystr
  | PList "pyval list"
  | PDict "(pystr \<times> pyval) list"

type_synonym pydict = "(pystr \<times> pyval) list"

text \<open>Exception objects: the classes the code can meet by name, and \<open>OtherError\<close>
  for an instance of any other subclass of \<open>Exception\<close>, which is what the handlers
  of the source catch.\<close>

datatype py_exception =
    ValueError pystr
  | KeyError pystr
  | AttributeError
  | TypeError
  | OverflowError
  | ValidationError
  | JSONDecodeError
  | OtherError pystr

subsection \<open>Strings\<close>

text \<open>\<open>str.isspace\<close> on one code point: the table of CPython's
  \<open>_PyUnicode_IsWhitespace\<close>.\<close>

definition isspace :: "nat \<Rightarrow> bool" where
  "isspace c = ((9 \<le> c \<and> c \<le> 13) \<or> (28 \<le> c \<and> c \<le> 32) \<or> c = 133 \<or> c = 160
     \<or> c = 5760 \<or> (8192 \<le> c \<and> c \<le> 8202) \<or> c = 8232 \<or> c = 8233 \<or> c = 8239
     \<or> c = 8287 \<or> c = 12288)"

definition strip :: "pystr \<Rightarrow> pystr" where
  "strip s = rev (dropWhile isspace (rev (dropWhile isspace s)))"

definition startswith :: "pystr \<Rightarrow> pystr \<Rightarrow> bool" where
  "startswith s p = (take (length p) s = p)"

text \<open>The code-fence marker, three backquotes (code point 96).\<close>

definition fence :: pystr where
  "fence = [96, 96, 96]"

text \<open>
  What one match of \<open>```(?:json)?\n?\<close> consumes after the three backquotes: the
  word json when it is there, then one newline when it is there. Both groups are greedy
  and the match never has to backtrack; the second alternative of the pattern, the bare
  marker, is never reached because the first one matches wherever the marker stands.
\<close>

definition after_fence :: "pystr \<Rightarrow> pystr" where
  "after_fence r =
     (let r1 = (if startswith r (py ''json'') then drop 4 r else r)
      in if startswith r1 [10] then drop 1 r1 else r1)"

text \<open>\<open>re.sub(r'```(?:json)?\n?|```', '', s)\<close>: every match, left to right, removed.\<close>

function re_sub_fences :: "pystr \<Rightarrow> pystr" where
  "re_sub_fences [] = []"
| "re_sub_fences (c # cs) =
     (if startswith (c # cs) fence then re_sub_fences (after_fence (drop 3 (c # cs)))
      else c # re_sub_fences cs)"
  by pat_completeness auto
termination
proof (relation "measure length")
  show "wf (measure length)" by simp
next
  fix c :: nat and cs :: pystr
  assume "startswith (c # cs) fence"
  have shorter: "length (after_fence r) \<le> length r" for r
    by (simp add: after_fence_def Let_def)
  have "length (after_fence (drop 3 (c # cs))) \<le> length (drop 3 (c # cs))"
    by (rule shorter)
  also have "\<dots> < length (c # cs)" by simp
  finally show "(after_fence (drop 3 (c # cs)), c # cs) \<in> measure length" by simp
next
  fix c :: nat and cs :: pystr
  show "(cs, c # cs) \<in> measure length" by simp
qed

text \<open>The cleaning both model calls apply to the response text (lines 135-137 and
  287-289): trim, and when the text starts with the marker remove the markers and trim
  again.\<close>

definition clean_response :: "pystr \<Rightarrow> pystr" where
  "clean_response t =
     (let s = strip t
      in if startswith s fence then strip (re_sub_fences s) else s)"

section \<open>Configuration and the outside world\<close>

record config =
  GEMINI_API_KEY :: "pystr option"
  GOOGLE_SEARCH_API_KEY :: "pystr option"
  GOOGLE_SEARCH_ENGINE_ID :: "pystr option"

text \<open>Truth value of a credential: \<open>None\<close> and the empty string are false.\<close>

definition configured :: "pystr option \<Rightarrow> bool" where
  "configured k = (case k of None \<Rightarrow> False | Some s \<Rightarrow> s \<noteq> [])"

text \<open>
  One call of the generative model, from building the model object to reading
  \<open>response.text\<close>. The prompt is not modelled: what the service answers is a
  parameter of every theorem, so nothing is assumed about how it depends on the prompt.
\<close>

datatype gen_outcome =
    GenRaises py_exception
  | GenNoResponse
  | GenTextRaises py_exception
  | GenText pystr

text \<open>\<open>json.loads\<close> is a parameter as well: a function from the text to the parsed
  value or the exception raised.\<close>

type_synonym json_loads = "pystr \<Rightarrow> py_exception + pyval"

section \<open>Request validation\<close>

text \<open>\<open>NewsVerificationRequest.validate_text\<close>, lines 88-96.\<close>

definition validate_text :: "pystr \<Rightarrow> py_exception + pystr" where
  "validate_text v =
     (if v = [] \<or> strip v = [] then Inl (ValueError (py ''Text field cannot be empty''))
      else if length (strip v) < 10
        then Inl (ValueError (py ''Text must be at least 10 characters long''))
      else if length v > 5000
        then Inl (ValueError (py ''Text cannot exceed 5000 characters''))
      else Inr (strip v))"

section \<open>Claim extraction\<close>

text \<open>
  \<open>extract_key_claims\<close>, lines 112-151. The claims of a parsed response are whatever
  JSON values the list holds, so a claim is a \<open>pyval\<close>.

  The body of the \<open>try\<close> block first: \<open>Inl e\<close> when an exception reaches the outer
  handler of line 147, \<open>Inr None\<close> when control falls out of the block without
  returning, \<open>Inr (Some claims)\<close> when line 143 returns. A \<open>JSONDecodeError\<close> is
  caught by the inner handler of line 144, which only logs.
\<close>

definition extract_try :: "gen_outcome \<Rightarrow> json_loads \<Rightarrow> py_exception + pyval list option" where
  "extract_try gen loads =
     (case gen of
        GenRaises e \<Rightarrow> Inl e
      | GenNoResponse \<Rightarrow> Inr None
      | GenTextRaises e \<Rightarrow> Inl e
      | GenText t \<Rightarrow>
          (if t = [] then Inr None
           else (case loads (clean_response t) of
               Inl e \<Rightarrow> (if e = JSONDecodeError then Inr None else Inl e)
             | Inr (PList claims) \<Rightarrow> (if length claims > 0 then Inr (Some claims) else Inr None)
             | Inr _ \<Rightarrow> Inr None)))"

definition extract_key_claims ::
  "config \<Rightarrow> gen_outcome \<Rightarrow> json_loads \<Rightarrow> pystr \<Rightarrow> pyval list" where
  "extract_key_claims cfg gen loads text =
     (if \<not> configured (GEMINI_API_KEY cfg) then [PStr text]
      else (case extract_try gen loads of
          Inr (Some claims) \<Rightarrow> claims
        | Inr None \<Rightarrow> [PStr (take 200 text)]
        | Inl e \<Rightarrow> [PStr (take 200 text)]))"

section \<open>Web search\<close>

record SearchResult =
  title :: pystr
  link :: pystr
  snippet :: pystr
  source :: pystr

text \<open>The HTTP exchange of one search: the request raises, or a response arrives with a
  status and a body that \<open>response.json()\<close> decodes or fails on.\<close>

datatype http_outcome =
    HttpRaises py_exception
  | HttpResponse int "py_exception + pyval"

text \<open>\<open>d.get(k, default)\<close>.\<close>

definition dict_get :: "pydict \<Rightarrow> pystr \<Rightarrow> pyval \<Rightarrow> pyval" where
  "dict_get d k dflt = (case map_of d k of None \<Rightarrow> dflt | Some v \<Rightarrow> v)"

text \<open>
  The body of the per-item \<open>try\<close> of lines 176-188. \<open>item.get\<close> exists on a dict
  only and \<open>source.startswith\<close> on a string only (\<open>AttributeError\<close> otherwise); the
  four fields of \<open>SearchResult\<close> are declared \<open>str\<close>, and of the values JSON can hold
  only a string passes that validation.
\<close>

definition parse_item :: "pyval \<Rightarrow> py_exception + SearchResult" where
  "parse_item item =
     (case item of
        PDict d \<Rightarrow>
          (case dict_get d (py ''displayLink'') (dict_get d (py ''link'') (PStr [])) of
             PStr src \<Rightarrow>
               (let src' = (if startswith src (py ''www.'') then drop 4 src else src)
                in (case dict_get d (py ''title'') (PStr []) of
                      PStr t \<Rightarrow>
                        (case dict_get d (py ''link'') (PStr []) of
                           PStr l \<Rightarrow>
                             (case dict_get d (py ''snippet'') (PStr []) of
                                PStr s \<Rightarrow>
                                  Inr \<lparr>title = t, link = l, snippet = s, source = src'\<rparr>
                              | _ \<Rightarrow> Inl ValidationError)
                         | _ \<Rightarrow> Inl ValidationError)
                    | _ \<Rightarrow> Inl ValidationError))
           | _ \<Rightarrow> Inl AttributeError)
      | _ \<Rightarrow> Inl AttributeError)"

text \<open>The loop of lines 175-191: an item that raises is logged and skipped.\<close>

fun collect_items :: "pyval list \<Rightarrow> SearchResult list" where
  "collect_items [] = []"
| "collect_items (item # items) =
     (case parse_item item of
        Inl e \<Rightarrow> collect_items items
      | Inr r \<Rightarrow> r # collect_items items)"

text \<open>What a \<open>for\<close> loop iterates over: the elements of a list, the characters of a
  string, the keys of a dict; any other JSON value is not iterable.\<close>

definition py_iter :: "pyval \<Rightarrow> py_exception + pyval list" where
  "py_iter v =
     (case v of
        PList xs \<Rightarrow> Inr xs
      | PStr s \<Rightarrow> Inr (map (\<lambda>c. PStr [c]) s)
      | PDict d \<Rightarrow> Inr (map (\<lambda>kv. PStr (fst kv)) d)
      | _ \<Rightarrow> Inl TypeError)"

text \<open>\<open>query[:50]\<close> in the log line 193 slices the query: a string or a list can be
  sliced, any other value raises.\<close>

definition sliceable :: "pyval \<Rightarrow> bool" where
  "sliceable v = (case v of PStr s \<Rightarrow> True | PList xs \<Rightarrow> True | _ \<Rightarrow> False)"

text \<open>The body of the \<open>try\<close> of lines 159-197. The result count goes into the request
  only, whose outcome is the parameter \<open>http\<close>.\<close>

definition search_google_try ::
  "pyval \<Rightarrow> int \<Rightarrow> http_outcome \<Rightarrow> py_exception + SearchResult list" where
  "search_google_try query num_results http =
     (case http of
        HttpRaises e \<Rightarrow> Inl e
      | HttpResponse status body \<Rightarrow>
          (if status = 200 then
             (case body of
                Inl e \<Rightarrow> Inl e
              | Inr (PDict d) \<Rightarrow>
                  (case py_iter (dict_get d (py ''items'') (PList [])) of
                     Inl e \<Rightarrow> Inl e
                   | Inr items \<Rightarrow>
                       (let results = collect_items items
                        in if sliceable query then Inr results else Inl TypeError))
              | Inr _ \<Rightarrow> Inl AttributeError)
           else Inr []))"

text \<open>\<open>search_google\<close>, lines 153-201.\<close>

definition search_google :: "config \<Rightarrow> pyval \<Rightarrow> int \<Rightarrow> http_outcome \<Rightarrow> SearchResult list" where
  "search_google cfg query num_results http =
     (if \<not> configured (GOOGLE_SEARCH_API_KEY cfg) \<or> \<not> configured (GOOGLE_SEARCH_ENGINE_ID cfg)
      then []
      else (case search_google_try query num_results http of
          Inl e \<Rightarrow> []
        | Inr results \<Rightarrow> results))"

section \<open>Evidence aggregation\<close>

text \<open>Lines 215-219: the searches started, as (query, result count) pairs in the order
  they are appended to \<open>search_tasks\<close>.\<close>

fun append_tasks :: "pyval list \<Rightarrow> (pyval \<times> int) list \<Rightarrow> (pyval \<times> int) list" where
  "append_tasks [] tasks = tasks"
| "append_tasks (claim # claims) tasks =
     (if claim \<noteq> PStr (py ''no verifiable claims'')
      then append_tasks claims (tasks @ [(claim, 3)])
      else append_tasks claims tasks)"

definition search_tasks :: "pyval list \<Rightarrow> (pyval \<times> int) list" where
  "search_tasks claims = append_tasks (take 3 claims) []"

text \<open>
  What happens to the task at one position of the list: it runs against some HTTP
  outcome, or \<open>asyncio.gather\<close> with \<open>return_exceptions=True\<close> puts an exception
  object into its slot.
\<close>

datatype task_env = TaskException py_exception | TaskHttp http_outcome

definition gather ::
  "config \<Rightarrow> (nat \<Rightarrow> task_env) \<Rightarrow> (pyval \<times> int) list \<Rightarrow> (py_exception + SearchResult list) list"
  where
  "gather cfg tasks_env tasks =
     map (\<lambda>(i, (query, num_results)).
            (case tasks_env i of
               TaskException e \<Rightarrow> Inl e
             | TaskHttp http \<Rightarrow> Inr (search_google cfg query num_results http)))
       (enumerate 0 tasks)"

text \<open>Lines 223-225: only a slot that is a list extends \<open>all_search_results\<close>.\<close>

fun extend_results :: "(py_exception + SearchResult list) list \<Rightarrow> SearchResult list" where
  "extend_results [] = []"
| "extend_results (Inr results # slots) = results @ extend_results slots"
| "extend_results (Inl e # slots) = extend_results slots"

text \<open>Step 2 of \<open>verify_with_ai_and_search\<close>, lines 214-225.\<close>

definition collect_search_results ::
  "config \<Rightarrow> (nat \<Rightarrow> task_env) \<Rightarrow> pyval list \<Rightarrow> SearchResult list" where
  "collect_search_results cfg tasks_env claims =
     (let tasks = search_tasks claims
      in if tasks \<noteq> [] then extend_results (gather cfg tasks_env tasks) else [])"

section \<open>AI analysis\<close>

text \<open>\<open>result.dict()\<close> of a search result, and the two list comprehensions over a
  slice of the evidence.\<close>

definition result_dict :: "SearchResult \<Rightarrow> pyval" where
  "result_dict r =
     PDict [(py ''title'', PStr (title r)), (py ''link'', PStr (link r)),
            (py ''snippet'', PStr (snippet r)), (py ''source'', PStr (source r))]"

definition links_of :: "SearchResult list \<Rightarrow> pyval" where
  "links_of rs = PList (map (\<lambda>r. PStr (link r)) rs)"

definition dicts_of :: "SearchResult list \<Rightarrow> pyval" where
  "dicts_of rs = PList (map result_dict rs)"

text \<open>Truth value of a JSON value, as \<open>not x\<close> tests it.\<close>

definition truthy :: "pyval \<Rightarrow> bool" where
  "truthy v =
     (case v of
        PNone \<Rightarrow> False
      | PBool b \<Rightarrow> b
      | PInt n \<Rightarrow> n \<noteq> 0
      | PFloat f \<Rightarrow> f \<noteq> Finite 0
      | PStr s \<Rightarrow> s \<noteq> []
      | PList xs \<Rightarrow> xs \<noteq> []
      | PDict d \<Rightarrow> d \<noteq> [])"

text \<open>\<open>isinstance(x, (int, float))\<close>: \<open>bool\<close> is a subclass of \<open>int\<close>.\<close>

definition is_number :: "pyval \<Rightarrow> bool" where
  "is_number v =
     (case v of PBool b \<Rightarrow> True | PInt n \<Rightarrow> True | PFloat f \<Rightarrow> True | _ \<Rightarrow> False)"

text \<open>
  \<open>float(x)\<close> on such a value. An integer whose nearest double would be beyond the
  largest finite one raises \<open>OverflowError\<close>; the bound is half-way between the largest
  double, \<open>2^1024 - 2^971\<close>, and \<open>2^1024\<close>.
\<close>

definition float_int_bound :: int where
  "float_int_bound = 2 ^ 1024 - 2 ^ 970"

definition py_float :: "pyval \<Rightarrow> py_exception + pyfloat" where
  "py_float v =
     (case v of
        PBool b \<Rightarrow> Inr (Finite (if b then 1 else 0))
      | PInt n \<Rightarrow> (if \<bar>n\<bar> < float_int_bound then Inr (Finite (of_int n)) else Inl OverflowError)
      | PFloat f \<Rightarrow> Inr f
      | _ \<Rightarrow> Inl TypeError)"

text \<open>Comparison of floats (every comparison with a NaN is false), and the two-argument
  \<open>min\<close> and \<open>max\<close>, which return their first argument unless the second is strictly
  smaller, respectively larger.\<close>

fun float_less :: "pyfloat \<Rightarrow> pyfloat \<Rightarrow> bool" where
  "float_less NaN y = False"
| "float_less x NaN = False"
| "float_less PosInf y = False"
| "float_less x NegInf = False"
| "float_less NegInf y = True"
| "float_less x PosInf = True"
| "float_less (Finite a) (Finite b) = (a < b)"

definition py_min :: "pyfloat \<Rightarrow> pyfloat \<Rightarrow> pyfloat" where
  "py_min a b = (if float_less b a then b else a)"

definition py_max :: "pyfloat \<Rightarrow> pyfloat \<Rightarrow> pyfloat" where
  "py_max a b = (if float_less a b then b else a)"

definition valid_classifications :: "pyval list" where
  "valid_classifications =
     [PStr (py ''Verified''), PStr (py ''Misinformation''), PStr (py ''Unverifiable'')]"

text \<open>
  Lines 295-309, on the value \<open>json.loads\<close> returned, one definition for each
  statement. An assignment \<open>result[k] = v\<close> replaces the value of a key that is there
  and appends the key otherwise.
\<close>

definition fix_classification :: "pydict \<Rightarrow> pydict" where
  "fix_classification d =
     (if dict_get d (py ''classification'') PNone \<notin> set valid_classifications
      then AList.update (py ''classification'') (PStr (py ''Unverifiable'')) d
      else d)"

definition fix_confidence :: "pydict \<Rightarrow> py_exception + pydict" where
  "fix_confidence d =
     (if \<not> is_number (dict_get d (py ''confidence'') PNone)
      then Inr (AList.update (py ''confidence'') (PFloat (Finite (1 / 2))) d)
      else (case py_float (dict_get d (py ''confidence'') PNone) of
              Inl e \<Rightarrow> Inl e
            | Inr f \<Rightarrow>
                Inr (AList.update (py ''confidence'')
                       (PFloat (py_max (Finite 0) (py_min (Finite 1) f))) d)))"

definition fix_reason :: "pydict \<Rightarrow> pydict" where
  "fix_reason d =
     (if \<not> truthy (dict_get d (py ''reason'') PNone)
      then AList.update (py ''reason'')
             (PStr (py ''Analysis completed with available information.'')) d
      else d)"

definition attach_evidence :: "SearchResult list \<Rightarrow> pydict \<Rightarrow> pydict" where
  "attach_evidence all_search_results d =
     AList.update (py ''search_results'') (dicts_of (take 5 all_search_results))
       (AList.update (py ''sources'') (links_of (take 5 all_search_results)) d)"

text \<open>\<open>result.get\<close> exists on a dict only; on any other parsed value line 296 raises.\<close>

definition repair_result :: "pyval \<Rightarrow> SearchResult list \<Rightarrow> py_exception + pydict" where
  "repair_result result all_search_results =
     (case result of
        PDict d \<Rightarrow>
          (case fix_confidence (fix_classification d) of
             Inl e \<Rightarrow> Inl e
           | Inr d2 \<Rightarrow> Inr (attach_evidence all_search_results (fix_reason d2)))
      | _ \<Rightarrow> Inl AttributeError)"

text \<open>The body of the \<open>try\<close> of lines 239-315, with the same three results as
  \<open>extract_try\<close>.\<close>

definition ai_analysis_try ::
  "gen_outcome \<Rightarrow> json_loads \<Rightarrow> SearchResult list \<Rightarrow> py_exception + pydict option" where
  "ai_analysis_try gen loads all_search_results =
     (case gen of
        GenRaises e \<Rightarrow> Inl e
      | GenNoResponse \<Rightarrow> Inr None
      | GenTextRaises e \<Rightarrow> Inl e
      | GenText t \<Rightarrow>
          (if t = [] then Inr None
           else (case loads (clean_response t) of
               Inl e \<Rightarrow> (if e = JSONDecodeError then Inr None else Inl e)
             | Inr result \<Rightarrow>
                 (case repair_result result all_search_results of
                    Inl e \<Rightarrow> Inl e
                  | Inr d \<Rightarrow> Inr (Some d)))))"

text \<open>The dict of lines 231-237, returned when the model is not configured.\<close>

definition unavailable_verdict :: "SearchResult list \<Rightarrow> pydict" where
  "unavailable_verdict all_search_results =
     [(py ''classification'', PStr (py ''Unverifiable'')),
      (py ''reason'', PStr (py ''AI analysis unavailable - API key not configured'')),
      (py ''sources'', links_of (take 5 all_search_results)),
      (py ''search_results'', dicts_of (take 5 all_search_results)),
      (py ''confidence'', PFloat (Finite (3 / 10)))]"

text \<open>The fallback dict of lines 321-327.\<close>

definition fallback_verdict :: "SearchResult list \<Rightarrow> pydict" where
  "fallback_verdict all_search_results =
     [(py ''classification'', PStr (py ''Unverifiable'')),
      (py ''reason'', PStr (py ''Unable to complete analysis due to technical limitations.'')),
      (py ''sources'', links_of (take 3 all_search_results)),
      (py ''search_results'', dicts_of (take 3 all_search_results)),
      (py ''confidence'', PFloat (Finite (3 / 10)))]"

text \<open>Step 3 of \<open>verify_with_ai_and_search\<close>, lines 230-327.\<close>

definition ai_analysis ::
  "config \<Rightarrow> gen_outcome \<Rightarrow> json_loads \<Rightarrow> SearchResult list \<Rightarrow> pydict" where
  "ai_analysis cfg gen loads all_search_results =
     (if \<not> configured (GEMINI_API_KEY cfg) then unavailable_verdict all_search_results
      else (case ai_analysis_try gen loads all_search_results of
          Inr (Some result) \<Rightarrow> result
        | Inr None \<Rightarrow> fallback_verdict all_search_results
        | Inl e \<Rightarrow> fallback_verdict all_search_results))"

section \<open>The orchestrator\<close>

text \<open>
  Everything outside the program that one request meets: the two answers of the model,
  \<open>json.loads\<close>, the fate of each search task, an exception raised inside the awaited
  pipeline that none of its handlers sees, and the clock (two readings in microseconds
  and the ISO text of the completion time).
\<close>

record world =
  extract_reply :: gen_outcome
  analysis_reply :: gen_outcome
  loads_fn :: json_loads
  tasks_env :: "nat \<Rightarrow> task_env"
  fault :: "py_exception option"
  start_time :: int
  end_time :: int
  now_isoformat :: pystr

text \<open>\<open>verify_with_ai_and_search\<close>, lines 203-327.\<close>

definition verify_with_ai_and_search :: "config \<Rightarrow> world \<Rightarrow> pystr \<Rightarrow> pydict" where
  "verify_with_ai_and_search cfg w text =
     (let claims = extract_key_claims cfg (extract_reply w) (loads_fn w) text;
          all_search_results = collect_search_results cfg (tasks_env w) claims
      in ai_analysis cfg (analysis_reply w) (loads_fn w) all_search_results)"

text \<open>\<open>(datetime.now() - start_time).total_seconds()\<close>.\<close>

definition processing_time :: "world \<Rightarrow> pyfloat" where
  "processing_time w = Finite (of_int (end_time w - start_time w) / 1000000)"

text \<open>Lines 342-350: \<open>result[k]\<close> raises \<open>KeyError\<close> on a key that is not there,
  \<open>result.get\<close> takes the default.\<close>

definition build_response :: "pydict \<Rightarrow> world \<Rightarrow> py_exception + pydict" where
  "build_response result w =
     (case map_of result (py ''classification'') of
        None \<Rightarrow> Inl (KeyError (py ''classification''))
      | Some c \<Rightarrow>
          (case map_of result (py ''reason'') of
             None \<Rightarrow> Inl (KeyError (py ''reason''))
           | Some r \<Rightarrow>
               Inr [(py ''classification'', c),
                    (py ''reason'', r),
                    (py ''sources'', dict_get result (py ''sources'') (PList [])),
                    (py ''search_results'', dict_get result (py ''search_results'') (PList [])),
                    (py ''confidence'', dict_get result (py ''confidence'') (PFloat (Finite (1 / 2)))),
                    (py ''timestamp'', PStr (now_isoformat w)),
                    (py ''processing_time'', PFloat (processing_time w))]))"

text \<open>The dict of lines 357-365.\<close>

definition degraded_response :: "world \<Rightarrow> pydict" where
  "degraded_response w =
     [(py ''classification'', PStr (py ''Unverifiable'')),
      (py ''reason'', PStr (py ''Service temporarily unavailable due to technical error.'')),
      (py ''sources'', PList []),
      (py ''search_results'', PList []),
      (py ''confidence'', PFloat (Finite 0)),
      (py ''timestamp'', PStr (now_isoformat w)),
      (py ''processing_time'', PFloat (processing_time w))]"

text \<open>The body of the \<open>try\<close> of lines 337-353, then \<open>verify_news\<close>, lines 329-365.\<close>

definition verify_news_try :: "config \<Rightarrow> world \<Rightarrow> pystr \<Rightarrow> py_exception + pydict" where
  "verify_news_try cfg w text =
     (case fault w of
        Some e \<Rightarrow> Inl e
      | None \<Rightarrow> build_response (verify_with_ai_and_search cfg w text) w)"

definition verify_news :: "config \<Rightarrow> world \<Rightarrow> pystr \<Rightarrow> pydict" where
  "verify_news cfg w text =
     (case verify_news_try cfg w text of
        Inl e \<Rightarrow> degraded_response w
      | Inr response \<Rightarrow> response)"

text \<open>The endpoint: the request model is validated before the handler is called, and a
  validation error is the client-error answer.\<close>

definition post_verify_news :: "config \<Rightarrow> world \<Rightarrow> pystr \<Rightarrow> py_exception + pydict" where
  "post_verify_news cfg w v =
     (case validate_text v of
        Inl e \<Rightarrow> Inl e
      | Inr text \<Rightarrow> Inr (verify_news cfg w text))"

section \<open>Vocabulary of the properties and sample inputs\<close>

text \<open>A parsed value that is a list with at least one element.\<close>

definition nonempty_list :: "pyval \<Rightarrow> bool" where
  "nonempty_list v = (case v of PList xs \<Rightarrow> xs \<noteq> [] | _ \<Rightarrow> False)"

text \<open>A parsed value that is a JSON object.\<close>

definition is_dict :: "pyval \<Rightarrow> bool" where
  "is_dict v = (case v of PDict d \<Rightarrow> True | _ \<Rightarrow> False)"

text \<open>A value that \<open>float\<close> converts without overflow: anything but an integer
  beyond the bound.\<close>

definition float_fits :: "pyval \<Rightarrow> bool" where
  "float_fits v = (case v of PInt n \<Rightarrow> \<bar>n\<bar> < float_int_bound | _ \<Rightarrow> True)"

text \<open>A service with every credential set, and one with none.\<close>

definition full_config :: config where
  "full_config =
     \<lparr>GEMINI_API_KEY = Some (py ''gk''), GOOGLE_SEARCH_API_KEY = Some (py ''sk''),
      GOOGLE_SEARCH_ENGINE_ID = Some (py ''cx'')\<rparr>"

definition bare_config :: config where
  "bare_config =
     \<lparr>GEMINI_API_KEY = None, GOOGLE_SEARCH_API_KEY = None, GOOGLE_SEARCH_ENGINE_ID = None\<rparr>"

text \<open>A result item of the search API and a response body holding such items.\<close>

definition sample_item :: "pystr \<Rightarrow> pyval" where
  "sample_item url =
     PDict [(py ''title'', PStr (py ''T'')), (py ''link'', PStr url),
            (py ''snippet'', PStr (py ''S'')), (py ''displayLink'', PStr (py ''www.ex.org''))]"

definition sample_result :: "pystr \<Rightarrow> SearchResult" where
  "sample_result url = \<lparr>title = py ''T'', link = url, snippet = py ''S'', source = py ''ex.org''\<rparr>"

definition sample_body :: "pystr list \<Rightarrow> pyval" where
  "sample_body urls = PDict [(py ''items'', PList (map sample_item urls))]"

text \<open>Three search tasks: the first finds two results, the slot of the second holds an
  exception object, the third finds three results.\<close>

definition sample_tasks_env :: "nat \<Rightarrow> task_env" where
  "sample_tasks_env i =
     (if i = 0 then TaskHttp (HttpResponse 200 (Inr (sample_body [py ''a'', py ''b''])))
      else if i = 1 then TaskException (OtherError (py ''cancelled''))
      else TaskHttp (HttpResponse 200 (Inr (sample_body [py ''c'', py ''d'', py ''e'']))))"

text \<open>Parsers that answer the same whatever the text: an empty JSON array, a JSON object
  with a verdict, and a decoding failure.\<close>

definition loads_empty_array :: json_loads where
  "loads_empty_array t = Inr (PList [])"

definition loads_verdict :: json_loads where
  "loads_verdict t =
     Inr (PDict [(py ''classification'', PStr (py ''Verified'')),
                 (py ''reason'', PStr (py ''ok'')),
                 (py ''confidence'', PFloat (Finite (9 / 10)))])"

definition loads_failure :: json_loads where
  "loads_failure t = Inl JSONDecodeError"

definition sample_world :: world where
  "sample_world =
     \<lparr>extract_reply = GenText (py ''x''), analysis_reply = GenText (py ''y''),
      loads_fn = loads_verdict, tasks_env = sample_tasks_env, fault = None,
      start_time = 1000000, end_time = 3500000, now_isoformat = py ''2025-01-01T00:00:00''\<rparr>"

definition faulty_world :: world where
  "faulty_world = sample_world\<lparr>fault := Some (OtherError (py ''boom''))\<rparr>"

section \<open>Auxiliary facts\<close>

lemma strip_Nil: "strip [] = []"
  by (simp add: strip_def)

lemma length_strip_le: "length (strip s) \<le> length s"
proof -
  have "length (strip s) \<le> length (dropWhile isspace s)"
    unfolding strip_def using length_dropWhile_le [of isspace "rev (dropWhile isspace s)"]
    by simp
  also have "\<dots> \<le> length s" by (rule length_dropWhile_le)
  finally show ?thesis .
qed

lemma strip_padded:
  assumes "\<not> isspace c" "isspace b" "0 < n"
  shows "strip (replicate n c @ replicate m b) = replicate n c"
proof -
  obtain k where n: "n = Suc k" using assms(3) by (cases n) auto
  have front: "dropWhile isspace (replicate n c @ replicate m b) = replicate n c @ replicate m b"
    using assms(1) by (simp add: n)
  have tail_part: "dropWhile isspace (replicate m b @ replicate n c) = replicate n c"
    using assms(1,2) by (simp add: dropWhile_append n)
  show ?thesis by (simp add: strip_def front tail_part)
qed

lemma extract_try_Some:
  "extract_try gen loads = Inr (Some cs) \<longleftrightarrow>
     (\<exists>t. gen = GenText t \<and> t \<noteq> [] \<and> loads (clean_response t) = Inr (PList cs) \<and> cs \<noteq> [])"
  by (auto simp: extract_try_def split: gen_outcome.splits sum.splits pyval.splits if_splits)

lemma extract_fallback:
  assumes "configured (GEMINI_API_KEY cfg)" and "\<And>cs. extract_try gen loads \<noteq> Inr (Some cs)"
  shows "extract_key_claims cfg gen loads text = [PStr (take 200 text)]"
  using assms by (auto simp: extract_key_claims_def split: sum.splits option.splits)

lemma append_tasks_eq:
  "append_tasks claims tasks =
     tasks @ map (\<lambda>claim. (claim, 3))
               (filter (\<lambda>claim. claim \<noteq> PStr (py ''no verifiable claims'')) claims)"
  by (induction claims arbitrary: tasks) auto

lemma search_tasks_eq:
  "search_tasks claims =
     map (\<lambda>claim. (claim, 3))
       (filter (\<lambda>claim. claim \<noteq> PStr (py ''no verifiable claims'')) (take 3 claims))"
  by (simp add: search_tasks_def append_tasks_eq)

lemma extend_results_concat:
  "extend_results slots =
     concat (map (\<lambda>slot. case slot of Inl e \<Rightarrow> [] | Inr results \<Rightarrow> results) slots)"
  by (induction slots rule: extend_results.induct) auto

lemma slot_contribution:
  "(case (case env i of TaskException e \<Rightarrow> Inl e
                      | TaskHttp http \<Rightarrow> Inr (search_google cfg query n http)) of
      Inl e \<Rightarrow> [] | Inr results \<Rightarrow> results)
   = (case env i of TaskException e \<Rightarrow> [] | TaskHttp http \<Rightarrow> search_google cfg query n http)"
  by (cases "env i") simp_all

lemma extend_gather:
  "extend_results (gather cfg env tasks) =
     concat (map (\<lambda>(i, (query, num_results)).
                    (case env i of
                       TaskException e \<Rightarrow> []
                     | TaskHttp http \<Rightarrow> search_google cfg query num_results http))
               (enumerate 0 tasks))"
  unfolding extend_results_concat gather_def map_map
  by (rule arg_cong [where f = concat], rule map_cong) (auto simp: slot_contribution)

lemma collect_search_results_eq:
  "collect_search_results cfg env claims =
     concat (map (\<lambda>(i, (query, num_results)).
                    (case env i of
                       TaskException e \<Rightarrow> []
                     | TaskHttp http \<Rightarrow> search_google cfg query num_results http))
               (enumerate 0 (search_tasks claims)))"
proof (cases "search_tasks claims = []")
  case True
  then show ?thesis by (simp add: collect_search_results_def)
next
  case False
  then show ?thesis by (simp add: collect_search_results_def extend_gather)
qed

lemma parse_sample_item: "parse_item (sample_item url) = Inr (sample_result url)"
  by (simp add: parse_item_def sample_item_def sample_result_def dict_get_def py_def
      startswith_def)

lemma full_config_configured:
  "configured (GEMINI_API_KEY full_config)"
  "configured (GOOGLE_SEARCH_API_KEY full_config)"
  "configured (GOOGLE_SEARCH_ENGINE_ID full_config)"
  by (simp_all add: full_config_def configured_def py_def)

lemma search_google_sample:
  "search_google full_config (PStr q) n (HttpResponse 200 (Inr (sample_body urls)))
     = map sample_result urls"
proof -
  have "collect_items (map sample_item urls) = map sample_result urls"
    by (induction urls) (simp_all add: parse_sample_item)
  then show ?thesis
    by (simp add: search_google_def full_config_configured search_google_try_def
        sample_body_def dict_get_def py_iter_def sliceable_def)
qed

section \<open>Request validation\<close>

text \<open>
  C3, as stated: a request is rejected exactly when its trimmed text is shorter than 10
  or longer than 5000 characters. The code does not do that. Ten letters followed by 4991
  spaces have a trimmed length of 10, inside the bounds, and the request is rejected:
  the upper bound of line 94 is tested on the text as received, not on the trimmed text.
\<close>

theorem padded_text_rejected:
  "length (strip (replicate 10 97 @ replicate 4991 32)) = 10
   \<and> post_verify_news full_config sample_world (replicate 10 97 @ replicate 4991 32)
       = Inl (ValueError (py ''Text cannot exceed 5000 characters''))"
proof -
  have trimmed: "strip (replicate 10 97 @ replicate 4991 32) = replicate 10 97"
    by (rule strip_padded) (simp_all add: isspace_def)
  show ?thesis
    unfolding post_verify_news_def validate_text_def trimmed by simp
qed

text \<open>
  C3, amended: a request is rejected, before the handler runs, exactly when its trimmed
  text is shorter than 10 characters (empty and whitespace-only texts included) or the
  text as received is longer than 5000 characters. So every text with a trimmed length
  below 10 is rejected, every text with a trimmed length above 5000 is rejected (the
  text as received is at least as long), and every text with a trimmed length of at
  least 10 and a received length of at most 5000 is accepted, the handler being given
  the trimmed text.
\<close>

theorem post_verify_news_validation:
  "(case post_verify_news cfg w v of
      Inl e \<Rightarrow> length (strip v) < 10 \<or> 5000 < length v
    | Inr response \<Rightarrow>
        10 \<le> length (strip v) \<and> length (strip v) \<le> 5000 \<and> length v \<le> 5000
        \<and> response = verify_news cfg w (strip v))"
  using length_strip_le [of v]
  by (auto simp: post_verify_news_def validate_text_def strip_Nil)

theorem post_verify_news_validation_witness:
  "post_verify_news full_config sample_world (py ''  The sky is blue.  '')
     = Inr (verify_news full_config sample_world (py ''The sky is blue.''))
   \<and> (\<exists>e. post_verify_news full_config sample_world (py '' too short '') = Inl e)"
  using post_verify_news_validation [where cfg = full_config and w = sample_world
      and v = "py ''  The sky is blue.  ''"]
  by (simp add: post_verify_news_def validate_text_def strip_def py_def isspace_def)

section \<open>Claim extraction\<close>

text \<open>
  C5: when the generative model is not configured, the extractor returns the list whose
  only element is the whole input text, whatever the text and the world.
\<close>

theorem extract_key_claims_unconfigured:
  "\<not> configured (GEMINI_API_KEY cfg) \<Longrightarrow> extract_key_claims cfg gen loads text = [PStr text]"
  by (simp add: extract_key_claims_def)

theorem extract_key_claims_unconfigured_witness:
  "\<not> configured (GEMINI_API_KEY bare_config)
   \<and> extract_key_claims bare_config (GenText (py ''[1]'')) loads_verdict (replicate 250 97)
       = [PStr (replicate 250 97)]"
proof -
  have off: "\<not> configured (GEMINI_API_KEY bare_config)"
    by (simp add: bare_config_def configured_def)
  show ?thesis
    using off extract_key_claims_unconfigured [OF off] by simp
qed

text \<open>
  C9: with the model configured, the extractor returns the single claim made of the
  first 200 characters of the text whenever the call raises (building the model,
  generating, or reading the text of the response), the response has no text, the
  cleaned text does not parse, or it parses to a value that is not a non-empty list.
\<close>

theorem extract_key_claims_fallback:
  assumes "configured (GEMINI_API_KEY cfg)"
    and "gen = GenRaises e \<or> gen = GenTextRaises e \<or> gen = GenNoResponse
       \<or> (gen = GenText t
           \<and> (t = [] \<or> loads (clean_response t) = Inl err
               \<or> (loads (clean_response t) = Inr v \<and> \<not> nonempty_list v)))"
  shows "extract_key_claims cfg gen loads text = [PStr (take 200 text)]"
proof (rule extract_fallback [OF assms(1)])
  fix cs
  show "extract_try gen loads \<noteq> Inr (Some cs)"
    using assms(2) unfolding extract_try_Some by (auto simp: nonempty_list_def)
qed

theorem extract_key_claims_fallback_witness:
  "configured (GEMINI_API_KEY full_config)
   \<and> loads_empty_array (clean_response (py ''[]'')) = Inr (PList [])
   \<and> \<not> nonempty_list (PList [])
   \<and> extract_key_claims full_config (GenText (py ''[]'')) loads_empty_array (replicate 250 97)
       = [PStr (replicate 200 97)]"
  using extract_key_claims_fallback [where cfg = full_config and gen = "GenText (py ''[]'')"
      and t = "py ''[]''" and loads = loads_empty_array and v = "PList []"
      and e = JSONDecodeError and err = JSONDecodeError, of "replicate 250 97"]
  by (simp add: full_config_configured loads_empty_array_def nonempty_list_def)

section \<open>Evidence aggregation\<close>

text \<open>
  C7: the searches started are, in order, the claims among the first three that differ
  from the sentinel "no verifiable claims", each with a result count of 3, so there are
  at most three, and gathering yields one slot per search. For the claims
  "Paris is the capital of France", the sentinel and "X", two searches are started, and
  when no claim is left no search is started and the evidence is empty.
\<close>

theorem search_tasks_first_three:
  "map fst (search_tasks claims)
     = filter (\<lambda>claim. claim \<noteq> PStr (py ''no verifiable claims'')) (take 3 claims)
   \<and> map snd (search_tasks claims) = replicate (length (search_tasks claims)) 3
   \<and> length (search_tasks claims) \<le> 3
   \<and> length (gather cfg env (search_tasks claims)) = length (search_tasks claims)
   \<and> search_tasks [PStr (py ''Paris is the capital of France''),
                    PStr (py ''no verifiable claims''), PStr (py ''X'')]
       = [(PStr (py ''Paris is the capital of France''), 3), (PStr (py ''X''), 3)]
   \<and> (filter (\<lambda>claim. claim \<noteq> PStr (py ''no verifiable claims'')) (take 3 claims) = []
        \<longrightarrow> search_tasks claims = [] \<and> collect_search_results cfg env claims = [])"
proof -
  let ?kept = "filter (\<lambda>claim. claim \<noteq> PStr (py ''no verifiable claims'')) (take 3 claims)"
  have queries: "map fst (search_tasks claims) = ?kept"
    by (simp add: search_tasks_eq comp_def)
  have counts: "map snd (search_tasks claims) = replicate (length (search_tasks claims)) 3"
    by (simp add: search_tasks_eq comp_def map_replicate_const)
  have "length ?kept \<le> length (take 3 claims)" by (rule length_filter_le)
  then have bound: "length (search_tasks claims) \<le> 3"
    by (simp add: search_tasks_eq)
  have slots: "length (gather cfg env (search_tasks claims)) = length (search_tasks claims)"
    by (simp add: gather_def)
  have paris: "search_tasks [PStr (py ''Paris is the capital of France''),
                    PStr (py ''no verifiable claims''), PStr (py ''X'')]
       = [(PStr (py ''Paris is the capital of France''), 3), (PStr (py ''X''), 3)]"
    by (simp add: search_tasks_def py_def)
  have none: "?kept = [] \<longrightarrow> search_tasks claims = [] \<and> collect_search_results cfg env claims = []"
    by (simp add: collect_search_results_def search_tasks_eq)
  from queries counts bound slots paris none show ?thesis by blast
qed

theorem search_tasks_first_three_witness:
  "filter (\<lambda>claim. claim \<noteq> PStr (py ''no verifiable claims''))
       (take 3 [PStr (py ''no verifiable claims'')]) = []
   \<and> search_tasks [PStr (py ''no verifiable claims'')] = []
   \<and> collect_search_results full_config sample_tasks_env [PStr (py ''no verifiable claims'')] = []
   \<and> map fst (search_tasks [PStr (py ''no verifiable claims''), PStr (py ''A''), PStr (py ''B''),
                              PStr (py ''C'')])
       = [PStr (py ''A''), PStr (py ''B'')]"
  using search_tasks_first_three [where claims = "[PStr (py ''no verifiable claims'')]"
      and cfg = full_config and env = sample_tasks_env]
    search_tasks_first_three [where claims = "[PStr (py ''no verifiable claims''),
      PStr (py ''A''), PStr (py ''B''), PStr (py ''C'')]" and cfg = full_config
      and env = sample_tasks_env]
  by (simp add: py_def)

text \<open>
  C8: the evidence is the concatenation, in the order the searches were started, of what
  each search contributes by itself; a slot that holds an exception object contributes
  nothing, and the contribution of every other slot is the result of its own search,
  whatever happened to its siblings. In the loop of lines 223-225 an exception slot
  between two runs of slots leaves the results of both runs, in order.
\<close>

theorem collect_search_results_isolated:
  "collect_search_results cfg env claims
     = concat (map (\<lambda>(i, (query, num_results)).
                      (case env i of
                         TaskException e \<Rightarrow> []
                       | TaskHttp http \<Rightarrow> search_google cfg query num_results http))
                 (enumerate 0 (search_tasks claims)))
   \<and> extend_results (before @ Inl e # after) = extend_results before @ extend_results after"
  by (simp add: collect_search_results_eq extend_results_concat)

theorem collect_search_results_isolated_witness:
  "sample_tasks_env 1 = TaskException (OtherError (py ''cancelled''))
   \<and> collect_search_results full_config sample_tasks_env
        [PStr (py ''A''), PStr (py ''B''), PStr (py ''C'')]
       = map sample_result [py ''a'', py ''b'', py ''c'', py ''d'', py ''e'']"
  using collect_search_results_isolated [where cfg = full_config and env = sample_tasks_env
      and claims = "[PStr (py ''A''), PStr (py ''B''), PStr (py ''C'')]" and before = "[]"
      and e = TypeError and after = "[]"]
  by (simp add: search_tasks_eq sample_tasks_env_def search_google_sample py_def
      enumerate_eq_zip upt_rec)

section \<open>Facts about the analysis step\<close>

text \<open>The cleaning on a fenced answer: the marker with its language tag and newline,
  and the closing marker, are removed and the rest is trimmed.\<close>

lemma clean_response_fenced:
  "clean_response (fence @ py ''json'' @ [10] @ py ''[1, 2]'' @ [10] @ fence) = py ''[1, 2]''"
  by (simp add: clean_response_def strip_def startswith_def fence_def py_def isspace_def
      after_fence_def)

lemma py_eq_iff: "py a = py b \<longleftrightarrow> a = b"
  unfolding py_def by (rule inj_map_eq_map) (rule inj_of_char)

lemma clamp_range: "\<exists>x. py_max (Finite 0) (py_min (Finite 1) f) = Finite x \<and> 0 \<le> x \<and> x \<le> 1"
  by (cases f) (auto simp: py_max_def py_min_def)

lemma clamp_Finite: "py_max (Finite 0) (py_min (Finite 1) (Finite x)) = Finite (max 0 (min 1 x))"
  by (auto simp: py_max_def py_min_def)

lemma map_of_fix_classification:
  "map_of (fix_classification d) k =
     (if k = py ''classification''
         \<and> dict_get d (py ''classification'') PNone \<notin> set valid_classifications
      then Some (PStr (py ''Unverifiable'')) else map_of d k)"
  by (simp add: fix_classification_def AList.update_conv')

lemma map_of_fix_confidence_other:
  "fix_confidence d = Inr d' \<Longrightarrow> k \<noteq> py ''confidence'' \<Longrightarrow> map_of d' k = map_of d k"
  by (auto simp: fix_confidence_def AList.update_conv' split: if_splits sum.splits)

lemma map_of_fix_confidence:
  "fix_confidence d = Inr d' \<Longrightarrow>
     (\<not> is_number (dict_get d (py ''confidence'') PNone) \<and>
          map_of d' (py ''confidence'') = Some (PFloat (Finite (1 / 2))))
     \<or> (is_number (dict_get d (py ''confidence'') PNone) \<and>
        (\<exists>f. py_float (dict_get d (py ''confidence'') PNone) = Inr f \<and>
          map_of d' (py ''confidence'') = Some (PFloat (py_max (Finite 0) (py_min (Finite 1) f)))))"
  by (auto simp: fix_confidence_def AList.update_conv' split: if_splits sum.splits)

lemma map_of_fix_reason:
  "map_of (fix_reason d) k =
     (if k = py ''reason'' \<and> \<not> truthy (dict_get d (py ''reason'') PNone)
      then Some (PStr (py ''Analysis completed with available information.'')) else map_of d k)"
  by (simp add: fix_reason_def AList.update_conv')

lemma map_of_attach_evidence:
  "map_of (attach_evidence rs d) k =
     (if k = py ''search_results'' then Some (dicts_of (take 5 rs))
      else if k = py ''sources'' then Some (links_of (take 5 rs)) else map_of d k)"
  by (simp add: attach_evidence_def AList.update_conv')

lemma key_neq:
  "py ''classification'' \<noteq> py ''confidence''" "py ''classification'' \<noteq> py ''reason''"
  "py ''classification'' \<noteq> py ''sources''" "py ''classification'' \<noteq> py ''search_results''"
  "py ''confidence'' \<noteq> py ''reason''" "py ''confidence'' \<noteq> py ''sources''"
  "py ''confidence'' \<noteq> py ''search_results''" "py ''reason'' \<noteq> py ''sources''"
  "py ''reason'' \<noteq> py ''search_results''" "py ''sources'' \<noteq> py ''search_results''"
  by (simp_all add: py_eq_iff)


lemma repair_non_dict: "\<not> is_dict result \<Longrightarrow> repair_result result rs = Inl AttributeError"
  by (cases result) (simp_all add: repair_result_def is_dict_def)

lemma repair_result_Inr:
  assumes "repair_result (PDict d) rs = Inr r"
  obtains d2 where "fix_confidence (fix_classification d) = Inr d2"
    and "r = attach_evidence rs (fix_reason d2)"
  using assms by (auto simp: repair_result_def split: sum.splits)

lemma dict_get_fix_classification:
  "k \<noteq> py ''classification'' \<Longrightarrow> dict_get (fix_classification d) k dflt = dict_get d k dflt"
  by (simp add: dict_get_def map_of_fix_classification)

lemma repair_sources:
  assumes "repair_result (PDict d) rs = Inr r"
  shows "map_of r (py ''sources'') = Some (links_of (take 5 rs))"
    and "map_of r (py ''search_results'') = Some (dicts_of (take 5 rs))"
  using assms
  by (auto elim!: repair_result_Inr simp: map_of_attach_evidence key_neq)

lemma repair_classification:
  assumes "repair_result (PDict d) rs = Inr r"
  shows "map_of r (py ''classification'') =
       Some (if dict_get d (py ''classification'') PNone \<in> set valid_classifications
             then dict_get d (py ''classification'') PNone else PStr (py ''Unverifiable''))"
proof -
  from assms obtain d2 where d2: "fix_confidence (fix_classification d) = Inr d2"
    and r: "r = attach_evidence rs (fix_reason d2)" by (rule repair_result_Inr)
  have "map_of r (py ''classification'') = map_of d2 (py ''classification'')"
    by (simp add: r map_of_attach_evidence map_of_fix_reason key_neq)
  also have "\<dots> = map_of (fix_classification d) (py ''classification'')"
    by (rule map_of_fix_confidence_other [OF d2]) (rule key_neq)
  also have "\<dots> = Some (if dict_get d (py ''classification'') PNone \<in> set valid_classifications
             then dict_get d (py ''classification'') PNone else PStr (py ''Unverifiable''))"
    by (auto simp: map_of_fix_classification dict_get_def valid_classifications_def
        split: option.splits)
  finally show ?thesis .
qed

lemma repair_confidence:
  assumes "repair_result (PDict d) rs = Inr r"
  shows "(\<not> is_number (dict_get d (py ''confidence'') PNone) \<and>
          map_of r (py ''confidence'') = Some (PFloat (Finite (1 / 2))))
     \<or> (is_number (dict_get d (py ''confidence'') PNone) \<and>
        (\<exists>f. py_float (dict_get d (py ''confidence'') PNone) = Inr f \<and>
          map_of r (py ''confidence'') = Some (PFloat (py_max (Finite 0) (py_min (Finite 1) f)))))"
proof -
  from assms obtain d2 where d2: "fix_confidence (fix_classification d) = Inr d2"
    and r: "r = attach_evidence rs (fix_reason d2)" by (rule repair_result_Inr)
  have same: "map_of r (py ''confidence'') = map_of d2 (py ''confidence'')"
    by (simp add: r map_of_attach_evidence map_of_fix_reason key_neq)
  have get: "dict_get (fix_classification d) (py ''confidence'') PNone
      = dict_get d (py ''confidence'') PNone"
    by (rule dict_get_fix_classification) (simp add: key_neq [symmetric])
  from map_of_fix_confidence [OF d2] show ?thesis unfolding same get .
qed

lemma repair_reason:
  assumes "repair_result (PDict d) rs = Inr r"
  shows "map_of r (py ''reason'') =
       Some (if truthy (dict_get d (py ''reason'') PNone) then dict_get d (py ''reason'') PNone
             else PStr (py ''Analysis completed with available information.''))"
proof -
  from assms obtain d2 where d2: "fix_confidence (fix_classification d) = Inr d2"
    and r: "r = attach_evidence rs (fix_reason d2)" by (rule repair_result_Inr)
  have d2_reason: "map_of d2 (py ''reason'') = map_of d (py ''reason'')"
    using map_of_fix_confidence_other [OF d2, of "py ''reason''"]
    by (simp add: map_of_fix_classification key_neq key_neq [symmetric])
  then have get: "dict_get d2 (py ''reason'') PNone = dict_get d (py ''reason'') PNone"
    by (simp add: dict_get_def)
  have "map_of r (py ''reason'') = map_of (fix_reason d2) (py ''reason'')"
    by (simp add: r map_of_attach_evidence key_neq)
  also have "\<dots> = Some (if truthy (dict_get d (py ''reason'') PNone)
             then dict_get d (py ''reason'') PNone
             else PStr (py ''Analysis completed with available information.''))"
    by (auto simp: map_of_fix_reason get d2_reason dict_get_def truthy_def split: option.splits)
  finally show ?thesis .
qed

lemma py_float_fits: "is_number v \<Longrightarrow> float_fits v \<Longrightarrow> \<exists>f. py_float v = Inr f"
  by (cases v) (auto simp: py_float_def float_fits_def is_number_def)

lemma repair_succeeds:
  assumes "float_fits (dict_get d (py ''confidence'') PNone)"
  shows "\<exists>r. repair_result (PDict d) rs = Inr r"
proof -
  have get: "dict_get (fix_classification d) (py ''confidence'') PNone
      = dict_get d (py ''confidence'') PNone"
    by (rule dict_get_fix_classification) (simp add: key_neq [symmetric])
  have "\<exists>d2. fix_confidence (fix_classification d) = Inr d2"
  proof (cases "is_number (dict_get d (py ''confidence'') PNone)")
    case False
    then show ?thesis by (simp add: fix_confidence_def get)
  next
    case True
    from py_float_fits [OF True assms] obtain f
      where "py_float (dict_get d (py ''confidence'') PNone) = Inr f" ..
    with True show ?thesis by (simp add: fix_confidence_def get)
  qed
  then show ?thesis by (auto simp: repair_result_def)
qed

lemma ai_analysis_parsed:
  assumes "configured (GEMINI_API_KEY cfg)" "t \<noteq> []" "loads (clean_response t) = Inr result"
  shows "ai_analysis cfg (GenText t) loads rs =
     (case repair_result result rs of Inl e \<Rightarrow> fallback_verdict rs | Inr r \<Rightarrow> r)"
  using assms by (simp add: ai_analysis_def ai_analysis_try_def split: sum.splits)

lemma ai_analysis_cases:
  "ai_analysis cfg gen loads rs = unavailable_verdict rs
   \<or> ai_analysis cfg gen loads rs = fallback_verdict rs
   \<or> (\<exists>d. repair_result (PDict d) rs = Inr (ai_analysis cfg gen loads rs))"
proof (cases "configured (GEMINI_API_KEY cfg)")
  case False
  then show ?thesis by (simp add: ai_analysis_def)
next
  case True
  show ?thesis
  proof (cases "ai_analysis_try gen loads rs")
    case (Inl e)
    with True show ?thesis by (simp add: ai_analysis_def)
  next
    case (Inr opt)
    show ?thesis
    proof (cases opt)
      case None
      with Inr True show ?thesis by (simp add: ai_analysis_def)
    next
      case (Some r)
      with Inr have "\<exists>result. repair_result result rs = Inr r"
        by (auto simp: ai_analysis_try_def split: gen_outcome.splits if_splits sum.splits)
      then obtain result where rep: "repair_result result rs = Inr r" ..
      have "is_dict result"
        using rep repair_non_dict [of result rs] by auto
      then obtain d where "result = PDict d"
        by (cases result) (simp_all add: is_dict_def)
      with rep Some Inr True show ?thesis by (auto simp: ai_analysis_def)
    qed
  qed
qed

lemma ai_analysis_evidence:
  "\<exists>k. k \<le> 5
     \<and> map_of (ai_analysis cfg gen loads rs) (py ''sources'') = Some (links_of (take k rs))
     \<and> map_of (ai_analysis cfg gen loads rs) (py ''search_results'') = Some (dicts_of (take k rs))"
  using ai_analysis_cases [of cfg gen loads rs]
proof (elim disjE exE)
  assume "ai_analysis cfg gen loads rs = unavailable_verdict rs"
  then have "map_of (ai_analysis cfg gen loads rs) (py ''sources'') = Some (links_of (take 5 rs))
     \<and> map_of (ai_analysis cfg gen loads rs) (py ''search_results'') = Some (dicts_of (take 5 rs))"
    by (simp add: unavailable_verdict_def py_eq_iff)
  then show ?thesis by (intro exI [of _ 5]) simp
next
  assume "ai_analysis cfg gen loads rs = fallback_verdict rs"
  then have "map_of (ai_analysis cfg gen loads rs) (py ''sources'') = Some (links_of (take 3 rs))
     \<and> map_of (ai_analysis cfg gen loads rs) (py ''search_results'') = Some (dicts_of (take 3 rs))"
    by (simp add: fallback_verdict_def py_eq_iff)
  then show ?thesis by (intro exI [of _ 3]) simp
next
  fix d
  assume "repair_result (PDict d) rs = Inr (ai_analysis cfg gen loads rs)"
  from repair_sources [OF this] show ?thesis by (intro exI [of _ 5]) simp
qed

lemma link_of_result_dict:
  "\<exists>d. result_dict r = PDict d \<and> map_of d (py ''link'') = Some (PStr (link r))"
  by (simp add: result_dict_def py_eq_iff)

lemma ai_analysis_verdict:
  "\<exists>c x rsn.
     map_of (ai_analysis cfg gen loads rs) (py ''classification'') = Some c
     \<and> c \<in> set valid_classifications
     \<and> map_of (ai_analysis cfg gen loads rs) (py ''confidence'') = Some (PFloat (Finite x))
     \<and> 0 \<le> x \<and> x \<le> 1
     \<and> map_of (ai_analysis cfg gen loads rs) (py ''reason'') = Some rsn"
  using ai_analysis_cases [of cfg gen loads rs]
proof (elim disjE exE)
  assume "ai_analysis cfg gen loads rs = unavailable_verdict rs"
  then have "map_of (ai_analysis cfg gen loads rs) (py ''classification'') = Some (PStr (py ''Unverifiable''))
     \<and> PStr (py ''Unverifiable'') \<in> set valid_classifications
     \<and> map_of (ai_analysis cfg gen loads rs) (py ''confidence'') = Some (PFloat (Finite (3 / 10)))
     \<and> (0::rat) \<le> 3 / 10 \<and> (3 / 10 :: rat) \<le> 1
     \<and> map_of (ai_analysis cfg gen loads rs) (py ''reason'')
         = Some (PStr (py ''AI analysis unavailable - API key not configured''))"
    by (simp add: unavailable_verdict_def py_eq_iff valid_classifications_def)
  then show ?thesis by blast
next
  assume "ai_analysis cfg gen loads rs = fallback_verdict rs"
  then have "map_of (ai_analysis cfg gen loads rs) (py ''classification'') = Some (PStr (py ''Unverifiable''))
     \<and> PStr (py ''Unverifiable'') \<in> set valid_classifications
     \<and> map_of (ai_analysis cfg gen loads rs) (py ''confidence'') = Some (PFloat (Finite (3 / 10)))
     \<and> (0::rat) \<le> 3 / 10 \<and> (3 / 10 :: rat) \<le> 1
     \<and> map_of (ai_analysis cfg gen loads rs) (py ''reason'')
         = Some (PStr (py ''Unable to complete analysis due to technical limitations.''))"
    by (simp add: fallback_verdict_def py_eq_iff valid_classifications_def)
  then show ?thesis by blast
next
  fix d
  assume rep: "repair_result (PDict d) rs = Inr (ai_analysis cfg gen loads rs)"
  have cls: "\<exists>c. map_of (ai_analysis cfg gen loads rs) (py ''classification'') = Some c
      \<and> c \<in> set valid_classifications"
    using repair_classification [OF rep] by (auto simp: valid_classifications_def)
  have conf: "\<exists>x. map_of (ai_analysis cfg gen loads rs) (py ''confidence'') = Some (PFloat (Finite x))
      \<and> 0 \<le> x \<and> x \<le> 1"
  proof (cases "is_number (dict_get d (py ''confidence'') PNone)")
    case False
    with repair_confidence [OF rep]
    have "map_of (ai_analysis cfg gen loads rs) (py ''confidence'') = Some (PFloat (Finite (1 / 2)))"
      by simp
    moreover have "(0::rat) \<le> 1 / 2 \<and> (1 / 2 :: rat) \<le> 1" by simp
    ultimately show ?thesis by blast
  next
    case True
    with repair_confidence [OF rep] obtain f where
      "map_of (ai_analysis cfg gen loads rs) (py ''confidence'')
         = Some (PFloat (py_max (Finite 0) (py_min (Finite 1) f)))" by blast
    with clamp_range [of f] show ?thesis by auto
  qed
  have rsn: "\<exists>rsn. map_of (ai_analysis cfg gen loads rs) (py ''reason'') = Some rsn"
    using repair_reason [OF rep] by simp
  from cls conf rsn show ?thesis by blast
qed

lemma py_Nil_iff: "py s = [] \<longleftrightarrow> s = []"
  by (simp add: py_def)

lemma collect_items_append: "collect_items (xs @ ys) = collect_items xs @ collect_items ys"
  by (induction xs) (auto split: sum.splits)

lemma collect_items_map_filter:
  "collect_items items =
     List.map_filter (\<lambda>item. case parse_item item of Inl e \<Rightarrow> None | Inr r \<Rightarrow> Some r) items"
  by (induction items) (auto simp: List.map_filter_simps split: sum.splits)

lemma collect_items_all_parsed:
  "map parse_item items = map Inr rs \<Longrightarrow> collect_items items = rs"
  by (induction items arbitrary: rs) auto

lemma search_google_items:
  assumes "configured (GOOGLE_SEARCH_API_KEY cfg)" "configured (GOOGLE_SEARCH_ENGINE_ID cfg)"
    and "map_of d (py ''items'') = Some (PList items)"
  shows "search_google cfg (PStr q) n (HttpResponse 200 (Inr (PDict d))) = collect_items items"
  using assms
  by (simp add: search_google_def search_google_try_def dict_get_def py_iter_def sliceable_def)

lemma parse_item_fields:
  assumes "map_of entry (py ''title'') = Some (PStr t)"
    and "map_of entry (py ''link'') = Some (PStr l)"
    and "map_of entry (py ''snippet'') = Some (PStr s)"
    and "map_of entry (py ''displayLink'') = Some (PStr dl)"
  shows "parse_item (PDict entry) =
     Inr \<lparr>title = t, link = l, snippet = s,
          source = (if startswith dl (py ''www.'') then drop 4 dl else dl)\<rparr>"
  using assms by (simp add: parse_item_def dict_get_def Let_def)

lemma parse_item_not_dict: "\<not> is_dict item \<Longrightarrow> parse_item item = Inl AttributeError"
  by (cases item) (simp_all add: parse_item_def is_dict_def)

section \<open>Web search\<close>

text \<open>
  C6: the search returns a list on every input, never an exception. Without both
  credentials it returns the empty list; on a status other than 200 it returns the empty
  list; whenever the body of its \<open>try\<close> block raises, as it does when the request
  raises or the response body cannot be decoded, it returns the empty list. With both
  credentials, status 200 and a body whose items are a list, the result is exactly the
  records of the items that parse, in the order of the items: when the items before and
  after one that fails parse to the records \<open>rxs\<close> and \<open>rys\<close>, the result is
  \<open>rxs @ rys\<close>. An item that is a dict with string title, link, snippet and display
  link parses to the record with those three fields and, as source, the display link
  without a leading "www."; an item that is not a dict fails.
\<close>

theorem search_google_never_fails:
  "(\<not> configured (GOOGLE_SEARCH_API_KEY cfg) \<or> \<not> configured (GOOGLE_SEARCH_ENGINE_ID cfg)
      \<longrightarrow> search_google cfg query n http = [])
   \<and> (status \<noteq> 200 \<longrightarrow> search_google cfg query n (HttpResponse status body) = [])
   \<and> (search_google_try query n http = Inl e \<longrightarrow> search_google cfg query n http = [])
   \<and> search_google_try query n (HttpRaises e) = Inl e
   \<and> search_google_try query n (HttpResponse 200 (Inl e)) = Inl e
   \<and> (configured (GOOGLE_SEARCH_API_KEY cfg) \<and> configured (GOOGLE_SEARCH_ENGINE_ID cfg)
        \<and> map_of d (py ''items'') = Some (PList (xs @ bad # ys)) \<and> parse_item bad = Inl e
      \<longrightarrow> search_google cfg (PStr q) n (HttpResponse 200 (Inr (PDict d)))
          = collect_items xs @ collect_items ys)
   \<and> (configured (GOOGLE_SEARCH_API_KEY cfg) \<and> configured (GOOGLE_SEARCH_ENGINE_ID cfg)
        \<and> map_of d (py ''items'') = Some (PList items)
      \<longrightarrow> search_google cfg (PStr q) n (HttpResponse 200 (Inr (PDict d)))
          = List.map_filter
              (\<lambda>item. case parse_item item of Inl e \<Rightarrow> None | Inr r \<Rightarrow> Some r) items)
   \<and> (configured (GOOGLE_SEARCH_API_KEY cfg) \<and> configured (GOOGLE_SEARCH_ENGINE_ID cfg)
        \<and> map_of d (py ''items'') = Some (PList (xs @ bad # ys))
        \<and> map parse_item xs = map Inr rxs \<and> parse_item bad = Inl e
        \<and> map parse_item ys = map Inr rys
      \<longrightarrow> search_google cfg (PStr q) n (HttpResponse 200 (Inr (PDict d))) = rxs @ rys)
   \<and> (map_of entry (py ''title'') = Some (PStr t) \<and> map_of entry (py ''link'') = Some (PStr l)
        \<and> map_of entry (py ''snippet'') = Some (PStr s)
        \<and> map_of entry (py ''displayLink'') = Some (PStr dl)
      \<longrightarrow> parse_item (PDict entry)
          = Inr \<lparr>title = t, link = l, snippet = s,
                 source = (if startswith dl (py ''www.'') then drop 4 dl else dl)\<rparr>)
   \<and> (\<not> is_dict item \<longrightarrow> parse_item item = Inl AttributeError)"
proof -
  have early: "(\<not> configured (GOOGLE_SEARCH_API_KEY cfg) \<or> \<not> configured (GOOGLE_SEARCH_ENGINE_ID cfg)
      \<longrightarrow> search_google cfg query n http = [])
   \<and> (status \<noteq> 200 \<longrightarrow> search_google cfg query n (HttpResponse status body) = [])
   \<and> (search_google_try query n http = Inl e \<longrightarrow> search_google cfg query n http = [])
   \<and> search_google_try query n (HttpRaises e) = Inl e
   \<and> search_google_try query n (HttpResponse 200 (Inl e)) = Inl e"
    by (auto simp: search_google_def search_google_try_def)
  have skipped: "configured (GOOGLE_SEARCH_API_KEY cfg) \<and> configured (GOOGLE_SEARCH_ENGINE_ID cfg)
        \<and> map_of d (py ''items'') = Some (PList (xs @ bad # ys)) \<and> parse_item bad = Inl e
      \<longrightarrow> search_google cfg (PStr q) n (HttpResponse 200 (Inr (PDict d)))
          = collect_items xs @ collect_items ys"
    by (auto simp: search_google_items collect_items_append)
  have filtered: "configured (GOOGLE_SEARCH_API_KEY cfg) \<and> configured (GOOGLE_SEARCH_ENGINE_ID cfg)
        \<and> map_of d (py ''items'') = Some (PList items)
      \<longrightarrow> search_google cfg (PStr q) n (HttpResponse 200 (Inr (PDict d)))
          = List.map_filter
              (\<lambda>item. case parse_item item of Inl e \<Rightarrow> None | Inr r \<Rightarrow> Some r) items"
    by (auto simp: search_google_items collect_items_map_filter)
  have pinned: "configured (GOOGLE_SEARCH_API_KEY cfg) \<and> configured (GOOGLE_SEARCH_ENGINE_ID cfg)
        \<and> map_of d (py ''items'') = Some (PList (xs @ bad # ys))
        \<and> map parse_item xs = map Inr rxs \<and> parse_item bad = Inl e
        \<and> map parse_item ys = map Inr rys
      \<longrightarrow> search_google cfg (PStr q) n (HttpResponse 200 (Inr (PDict d))) = rxs @ rys"
    by (auto simp: search_google_items collect_items_append collect_items_all_parsed)
  have item_ok: "map_of entry (py ''title'') = Some (PStr t) \<and> map_of entry (py ''link'') = Some (PStr l)
        \<and> map_of entry (py ''snippet'') = Some (PStr s)
        \<and> map_of entry (py ''displayLink'') = Some (PStr dl)
      \<longrightarrow> parse_item (PDict entry)
          = Inr \<lparr>title = t, link = l, snippet = s,
                 source = (if startswith dl (py ''www.'') then drop 4 dl else dl)\<rparr>"
    using parse_item_fields [of entry t l s dl] by blast
  have item_bad: "\<not> is_dict item \<longrightarrow> parse_item item = Inl AttributeError"
    by (simp add: parse_item_not_dict)
  from early skipped filtered pinned item_ok item_bad show ?thesis by blast
qed

theorem search_google_never_fails_witness:
  "\<not> configured (GOOGLE_SEARCH_API_KEY bare_config)
   \<and> search_google bare_config (PStr (py ''q'')) 3
        (HttpResponse 200 (Inr (sample_body [py ''a'']))) = []
   \<and> search_google full_config (PStr (py ''q'')) 3
        (HttpResponse 503 (Inr (sample_body [py ''a'']))) = []
   \<and> search_google full_config (PStr (py ''q'')) 3 (HttpRaises (OtherError (py ''timeout''))) = []
   \<and> parse_item (PInt 7) = Inl AttributeError
   \<and> search_google full_config (PStr (py ''q'')) 3
        (HttpResponse 200 (Inr (PDict [(py ''items'',
           PList ([sample_item (py ''a'')] @ PInt 7
                    # [sample_item (py ''b''), sample_item (py ''c'')]))])))
       = [\<lparr>title = py ''T'', link = py ''a'', snippet = py ''S'', source = py ''ex.org''\<rparr>,
          \<lparr>title = py ''T'', link = py ''b'', snippet = py ''S'', source = py ''ex.org''\<rparr>,
          \<lparr>title = py ''T'', link = py ''c'', snippet = py ''S'', source = py ''ex.org''\<rparr>]"
proof -
  have off: "\<not> configured (GOOGLE_SEARCH_API_KEY bare_config)"
    by (simp add: bare_config_def configured_def)
  have not_dict: "\<not> is_dict (PInt 7)" by (simp add: is_dict_def)
  have bad: "parse_item (PInt 7) = Inl AttributeError"
    using not_dict search_google_never_fails [where item = "PInt 7"] by blast
  have www: "startswith (py ''www.ex.org'') (py ''www.'')"
    and rest: "drop 4 (py ''www.ex.org'') = py ''ex.org''"
    by (simp_all add: startswith_def py_def)
  have good: "parse_item (sample_item u)
      = Inr \<lparr>title = py ''T'', link = u, snippet = py ''S'', source = py ''ex.org''\<rparr>" for u
    using search_google_never_fails [where entry = "[(py ''title'', PStr (py ''T'')),
        (py ''link'', PStr u), (py ''snippet'', PStr (py ''S'')),
        (py ''displayLink'', PStr (py ''www.ex.org''))]" and t = "py ''T''" and l = u
        and s = "py ''S''" and dl = "py ''www.ex.org''"]
    by (simp add: sample_item_def py_eq_iff www rest)
  have items: "map_of [(py ''items'',
      PList ([sample_item (py ''a'')] @ PInt 7 # [sample_item (py ''b''), sample_item (py ''c'')]))]
        (py ''items'')
      = Some (PList ([sample_item (py ''a'')] @ PInt 7
                       # [sample_item (py ''b''), sample_item (py ''c'')]))"
    by simp
  have before: "map parse_item [sample_item (py ''a'')]
      = map Inr [\<lparr>title = py ''T'', link = py ''a'', snippet = py ''S'', source = py ''ex.org''\<rparr>]"
    by (simp add: good)
  have after: "map parse_item [sample_item (py ''b''), sample_item (py ''c'')]
      = map Inr [\<lparr>title = py ''T'', link = py ''b'', snippet = py ''S'', source = py ''ex.org''\<rparr>,
                 \<lparr>title = py ''T'', link = py ''c'', snippet = py ''S'', source = py ''ex.org''\<rparr>]"
    by (simp add: good)
  have kept: "search_google full_config (PStr (py ''q'')) 3
        (HttpResponse 200 (Inr (PDict [(py ''items'',
           PList ([sample_item (py ''a'')] @ PInt 7
                    # [sample_item (py ''b''), sample_item (py ''c'')]))])))
       = [\<lparr>title = py ''T'', link = py ''a'', snippet = py ''S'', source = py ''ex.org''\<rparr>]
         @ [\<lparr>title = py ''T'', link = py ''b'', snippet = py ''S'', source = py ''ex.org''\<rparr>,
            \<lparr>title = py ''T'', link = py ''c'', snippet = py ''S'', source = py ''ex.org''\<rparr>]"
    using full_config_configured(2,3) items before bad after
      search_google_never_fails [where cfg = full_config and e = AttributeError
        and d = "[(py ''items'',
              PList ([sample_item (py ''a'')] @ PInt 7
                       # [sample_item (py ''b''), sample_item (py ''c'')]))]"
        and xs = "[sample_item (py ''a'')]" and bad = "PInt 7"
        and ys = "[sample_item (py ''b''), sample_item (py ''c'')]" and q = "py ''q''" and n = 3
        and rxs = "[\<lparr>title = py ''T'', link = py ''a'', snippet = py ''S'', source = py ''ex.org''\<rparr>]"
        and rys = "[\<lparr>title = py ''T'', link = py ''b'', snippet = py ''S'', source = py ''ex.org''\<rparr>,
                    \<lparr>title = py ''T'', link = py ''c'', snippet = py ''S'', source = py ''ex.org''\<rparr>]"]
    by blast
  have raised: "search_google_try (PStr (py ''q'')) 3 (HttpRaises (OtherError (py ''timeout'')))
      = Inl (OtherError (py ''timeout''))"
    using search_google_never_fails [where query = "PStr (py ''q'')" and n = 3
        and e = "OtherError (py ''timeout'')"] by blast
  have unconfigured: "search_google bare_config (PStr (py ''q'')) 3
        (HttpResponse 200 (Inr (sample_body [py ''a'']))) = []"
    using off search_google_never_fails [where cfg = bare_config and query = "PStr (py ''q'')"
        and n = 3 and http = "HttpResponse 200 (Inr (sample_body [py ''a'']))"] by blast
  have status: "search_google full_config (PStr (py ''q'')) 3
        (HttpResponse 503 (Inr (sample_body [py ''a'']))) = []"
    using search_google_never_fails [where cfg = full_config and query = "PStr (py ''q'')"
        and n = 3 and status = 503 and body = "Inr (sample_body [py ''a''])"] by simp
  have failed: "search_google full_config (PStr (py ''q'')) 3
        (HttpRaises (OtherError (py ''timeout''))) = []"
    using raised search_google_never_fails [where cfg = full_config and query = "PStr (py ''q'')"
        and n = 3 and http = "HttpRaises (OtherError (py ''timeout''))"
        and e = "OtherError (py ''timeout'')"] by blast
  from off unconfigured status failed bad kept show ?thesis by simp
qed

section \<open>The verdict\<close>

text \<open>
  C10: in the dict the analysis step returns on any path, the sources and the search
  results are lists of the same length, at most 5, and the source at each index is the
  link of the search result at that index.
\<close>

theorem ai_analysis_sources_match:
  "\<exists>ss ds.
     map_of (ai_analysis cfg gen loads rs) (py ''sources'') = Some (PList ss)
     \<and> map_of (ai_analysis cfg gen loads rs) (py ''search_results'') = Some (PList ds)
     \<and> length ss = length ds \<and> length ss \<le> 5
     \<and> (\<forall>i < length ss. \<exists>d. ds ! i = PDict d \<and> map_of d (py ''link'') = Some (ss ! i))"
proof -
  obtain k where k: "k \<le> 5"
    and s: "map_of (ai_analysis cfg gen loads rs) (py ''sources'') = Some (links_of (take k rs))"
    and e: "map_of (ai_analysis cfg gen loads rs) (py ''search_results'') = Some (dicts_of (take k rs))"
    using ai_analysis_evidence by blast
  let ?ss = "map (\<lambda>r. PStr (link r)) (take k rs)"
  let ?ds = "map result_dict (take k rs)"
  have "length ?ss \<le> 5" using k by simp
  moreover have "\<forall>i < length ?ss. \<exists>d. ?ds ! i = PDict d \<and> map_of d (py ''link'') = Some (?ss ! i)"
    using link_of_result_dict by simp
  ultimately show ?thesis
    using s e unfolding links_of_def dicts_of_def
    by (intro exI [of _ ?ss] exI [of _ ?ds]) simp
qed

theorem ai_analysis_sources_match_witness:
  "map_of (ai_analysis bare_config GenNoResponse loads_failure
             (map sample_result [py ''a'', py ''b''])) (py ''sources'')
     = Some (PList [PStr (py ''a''), PStr (py ''b'')])
   \<and> map_of (ai_analysis bare_config GenNoResponse loads_failure
             (map sample_result [py ''a'', py ''b''])) (py ''search_results'')
     = Some (PList [result_dict (sample_result (py ''a'')), result_dict (sample_result (py ''b''))])
   \<and> (1::nat) < length [PStr (py ''a''), PStr (py ''b'')]
   \<and> map_of [(py ''title'', PStr (py ''T'')), (py ''link'', PStr (py ''b'')),
              (py ''snippet'', PStr (py ''S'')), (py ''source'', PStr (py ''ex.org''))] (py ''link'')
       = Some ([PStr (py ''a''), PStr (py ''b'')] ! 1)"
  using ai_analysis_sources_match [of bare_config GenNoResponse loads_failure "map sample_result [py ''a'', py ''b'']"]
  by (simp add: ai_analysis_def bare_config_def configured_def unavailable_verdict_def
      key_neq key_neq [symmetric] links_of_def dicts_of_def sample_result_def py_eq_iff)

text \<open>
  C4, as stated: whenever the response of the model parses as JSON, the sources are the
  links of the first 5 evidence records. The code does not do that for a response that
  parses to something other than an object. The text \<open>[]\<close> parses, to an empty
  array; \<open>result.get\<close> then raises, the outer handler takes the fallback, and with
  four evidence records the sources are the links of the first three, not of all four.
\<close>

theorem parsed_array_takes_fallback:
  "configured (GEMINI_API_KEY full_config) \<and> py ''[]'' \<noteq> []
   \<and> loads_empty_array (clean_response (py ''[]'')) = Inr (PList [])
   \<and> map_of (ai_analysis full_config (GenText (py ''[]'')) loads_empty_array
               (map sample_result [py ''a'', py ''b'', py ''c'', py ''d'']))
         (py ''sources'')
       = Some (PList [PStr (py ''a''), PStr (py ''b''), PStr (py ''c'')])
   \<and> links_of (take 5 (map sample_result [py ''a'', py ''b'', py ''c'', py ''d'']))
       = PList [PStr (py ''a''), PStr (py ''b''), PStr (py ''c''), PStr (py ''d'')]
   \<and> map_of (ai_analysis full_config (GenText (py ''[]'')) loads_empty_array
               (map sample_result [py ''a'', py ''b'', py ''c'', py ''d'']))
         (py ''sources'')
       \<noteq> Some (links_of (take 5 (map sample_result [py ''a'', py ''b'', py ''c'', py ''d''])))"
proof -
  have text_given: "py ''[]'' \<noteq> []" by (simp add: py_Nil_iff)
  have parsed: "loads_empty_array (clean_response (py ''[]'')) = Inr (PList [])"
    by (simp add: loads_empty_array_def)
  have "repair_result (PList []) (map sample_result [py ''a'', py ''b'', py ''c'', py ''d''])
      = Inl AttributeError"
    by (simp add: repair_result_def)
  then have "ai_analysis full_config (GenText (py ''[]'')) loads_empty_array
               (map sample_result [py ''a'', py ''b'', py ''c'', py ''d''])
      = fallback_verdict (map sample_result [py ''a'', py ''b'', py ''c'', py ''d''])"
    using ai_analysis_parsed [of full_config "py ''[]''" loads_empty_array "PList []"]
      full_config_configured(1) text_given parsed by simp
  then show ?thesis
    using text_given parsed full_config_configured(1)
    by (simp add: fallback_verdict_def key_neq key_neq [symmetric] links_of_def sample_result_def)
qed

text \<open>
  C4, amended: whenever the response of the model parses to a JSON object whose
  confidence is not an integer too large to convert to a float, the verdict satisfies
  all of: a classification outside the three valid values is replaced by Unverifiable
  and a valid one is kept; a confidence that Python does not count as int or float is
  replaced by 0.5; one that it counts as int or float ends in [0, 1], a finite float or
  an integer being clamped to the nearer bound; a reason that is missing or false is
  replaced by a non-empty default and any other reason is kept; and the sources and the
  search results are the links, respectively the records, of the first 5 evidence
  records, whatever the model put under those keys.
\<close>

theorem ai_analysis_repairs_object:
  assumes "configured (GEMINI_API_KEY cfg)" and "t \<noteq> []"
    and "loads (clean_response t) = Inr (PDict d)"
    and "float_fits (dict_get d (py ''confidence'') PNone)"
  shows
    "map_of (ai_analysis cfg (GenText t) loads rs) (py ''classification'')
       = Some (if dict_get d (py ''classification'') PNone \<in> set valid_classifications
               then dict_get d (py ''classification'') PNone else PStr (py ''Unverifiable''))
     \<and> (\<not> is_number (dict_get d (py ''confidence'') PNone) \<longrightarrow>
          map_of (ai_analysis cfg (GenText t) loads rs) (py ''confidence'')
            = Some (PFloat (Finite (1 / 2))))
     \<and> (is_number (dict_get d (py ''confidence'') PNone) \<longrightarrow>
          (\<exists>y. map_of (ai_analysis cfg (GenText t) loads rs) (py ''confidence'')
                  = Some (PFloat (Finite y)) \<and> 0 \<le> y \<and> y \<le> 1))
     \<and> (dict_get d (py ''confidence'') PNone = PFloat (Finite x) \<longrightarrow>
          map_of (ai_analysis cfg (GenText t) loads rs) (py ''confidence'')
            = Some (PFloat (Finite (max 0 (min 1 x)))))
     \<and> (dict_get d (py ''confidence'') PNone = PInt n \<longrightarrow>
          map_of (ai_analysis cfg (GenText t) loads rs) (py ''confidence'')
            = Some (PFloat (Finite (max 0 (min 1 (of_int n))))))
     \<and> map_of (ai_analysis cfg (GenText t) loads rs) (py ''reason'')
         = Some (if truthy (dict_get d (py ''reason'') PNone)
                 then dict_get d (py ''reason'') PNone
                 else PStr (py ''Analysis completed with available information.''))
     \<and> py ''Analysis completed with available information.'' \<noteq> []
     \<and> map_of (ai_analysis cfg (GenText t) loads rs) (py ''sources'')
         = Some (links_of (take 5 rs))
     \<and> map_of (ai_analysis cfg (GenText t) loads rs) (py ''search_results'')
         = Some (dicts_of (take 5 rs))"
proof -
  from repair_succeeds [OF assms(4)] obtain r where rep: "repair_result (PDict d) rs = Inr r" ..
  have r: "ai_analysis cfg (GenText t) loads rs = r"
    using ai_analysis_parsed [of cfg t loads "PDict d" rs] assms(1-3) by (simp add: rep)
  note conf = repair_confidence [OF rep]
  have half: "\<not> is_number (dict_get d (py ''confidence'') PNone) \<longrightarrow>
      map_of r (py ''confidence'') = Some (PFloat (Finite (1 / 2)))"
    using conf by blast
  have range: "is_number (dict_get d (py ''confidence'') PNone) \<longrightarrow>
      (\<exists>y. map_of r (py ''confidence'') = Some (PFloat (Finite y)) \<and> 0 \<le> y \<and> y \<le> 1)"
  proof
    assume "is_number (dict_get d (py ''confidence'') PNone)"
    with conf obtain f where
      "map_of r (py ''confidence'') = Some (PFloat (py_max (Finite 0) (py_min (Finite 1) f)))"
      by blast
    with clamp_range [of f] show
      "\<exists>y. map_of r (py ''confidence'') = Some (PFloat (Finite y)) \<and> 0 \<le> y \<and> y \<le> 1"
      by auto
  qed
  have flt: "dict_get d (py ''confidence'') PNone = PFloat (Finite x) \<longrightarrow>
      map_of r (py ''confidence'') = Some (PFloat (Finite (max 0 (min 1 x))))"
    using conf by (auto simp: is_number_def py_float_def clamp_Finite)
  have int: "dict_get d (py ''confidence'') PNone = PInt n \<longrightarrow>
      map_of r (py ''confidence'') = Some (PFloat (Finite (max 0 (min 1 (of_int n)))))"
    using conf by (auto simp: is_number_def py_float_def clamp_Finite split: if_splits)
  have nonempty: "py ''Analysis completed with available information.'' \<noteq> []"
    by (simp add: py_Nil_iff)
  show ?thesis
    unfolding r
    using repair_classification [OF rep] half range flt int repair_reason [OF rep] nonempty
      repair_sources [OF rep]
    by blast
qed

theorem ai_analysis_repairs_object_witness:
  "configured (GEMINI_API_KEY full_config) \<and> py ''y'' \<noteq> []
   \<and> loads_verdict (clean_response (py ''y''))
       = Inr (PDict [(py ''classification'', PStr (py ''Verified'')),
                     (py ''reason'', PStr (py ''ok'')),
                     (py ''confidence'', PFloat (Finite (9 / 10)))])
   \<and> map_of (ai_analysis full_config (GenText (py ''y'')) loads_verdict
               (map sample_result [py ''a'', py ''b'', py ''c'', py ''d'', py ''e'', py ''f'']))
         (py ''confidence'') = Some (PFloat (Finite (9 / 10)))
   \<and> map_of (ai_analysis full_config (GenText (py ''y'')) loads_verdict
               (map sample_result [py ''a'', py ''b'', py ''c'', py ''d'', py ''e'', py ''f'']))
         (py ''classification'') = Some (PStr (py ''Verified''))
   \<and> map_of (ai_analysis full_config (GenText (py ''y'')) loads_verdict
               (map sample_result [py ''a'', py ''b'', py ''c'', py ''d'', py ''e'', py ''f'']))
         (py ''sources'')
       = Some (PList [PStr (py ''a''), PStr (py ''b''), PStr (py ''c''), PStr (py ''d''),
                      PStr (py ''e'')])"
proof -
  have text_given: "py ''y'' \<noteq> []" by (simp add: py_Nil_iff)
  have parsed: "loads_verdict (clean_response (py ''y''))
       = Inr (PDict [(py ''classification'', PStr (py ''Verified'')),
                     (py ''reason'', PStr (py ''ok'')),
                     (py ''confidence'', PFloat (Finite (9 / 10)))])"
    by (simp add: loads_verdict_def)
  have conf: "dict_get [(py ''classification'', PStr (py ''Verified'')),
                     (py ''reason'', PStr (py ''ok'')),
                     (py ''confidence'', PFloat (Finite (9 / 10)))] (py ''confidence'') PNone
      = PFloat (Finite (9 / 10))"
    by (simp add: dict_get_def py_eq_iff)
  have cls: "dict_get [(py ''classification'', PStr (py ''Verified'')),
                     (py ''reason'', PStr (py ''ok'')),
                     (py ''confidence'', PFloat (Finite (9 / 10)))] (py ''classification'') PNone
      = PStr (py ''Verified'')"
    by (simp add: dict_get_def)
  have fits: "float_fits (PFloat (Finite (9 / 10)))" by (simp add: float_fits_def)
  show ?thesis
    using ai_analysis_repairs_object [where cfg = full_config and t = "py ''y''" and loads = loads_verdict
        and d = "[(py ''classification'', PStr (py ''Verified'')),
                  (py ''reason'', PStr (py ''ok'')),
                  (py ''confidence'', PFloat (Finite (9 / 10)))]"
        and x = "9 / 10"
        and rs = "map sample_result [py ''a'', py ''b'', py ''c'', py ''d'', py ''e'', py ''f'']"]
      text_given parsed full_config_configured(1) fits
    by (simp add: conf cls valid_classifications_def links_of_def sample_result_def)
qed

section \<open>The orchestrator\<close>

text \<open>
  C1: for every text whose trimmed length is between 10 and 5000, and every
  configuration and behaviour of the outside world, the response of \<open>verify_news\<close>
  has a classification among Verified, Misinformation and Unverifiable and a confidence
  that is a finite float between 0 and 1.
\<close>

theorem verify_news_wellformed:
  assumes "10 \<le> length (strip text)" and "length (strip text) \<le> 5000"
  shows "\<exists>c x. map_of (verify_news cfg w text) (py ''classification'') = Some c
     \<and> c \<in> set valid_classifications
     \<and> map_of (verify_news cfg w text) (py ''confidence'') = Some (PFloat (Finite x))
     \<and> 0 \<le> x \<and> x \<le> 1"
proof (cases "fault w")
  case (Some e)
  then have "verify_news cfg w text = degraded_response w"
    by (simp add: verify_news_def verify_news_try_def)
  then have "map_of (verify_news cfg w text) (py ''classification'') = Some (PStr (py ''Unverifiable''))
     \<and> PStr (py ''Unverifiable'') \<in> set valid_classifications
     \<and> map_of (verify_news cfg w text) (py ''confidence'') = Some (PFloat (Finite 0))
     \<and> (0::rat) \<le> 0 \<and> (0::rat) \<le> 1"
    by (simp add: degraded_response_def py_eq_iff valid_classifications_def)
  then show ?thesis by blast
next
  case None
  obtain c x rsn where
    v: "map_of (verify_with_ai_and_search cfg w text) (py ''classification'') = Some c"
       "c \<in> set valid_classifications"
       "map_of (verify_with_ai_and_search cfg w text) (py ''confidence'') = Some (PFloat (Finite x))"
       "0 \<le> x" "x \<le> 1"
       "map_of (verify_with_ai_and_search cfg w text) (py ''reason'') = Some rsn"
    unfolding verify_with_ai_and_search_def Let_def using ai_analysis_verdict by blast
  have "map_of (verify_news cfg w text) (py ''classification'') = Some c
     \<and> map_of (verify_news cfg w text) (py ''confidence'') = Some (PFloat (Finite x))"
    using None v(1,3,6)
    by (simp add: verify_news_def verify_news_try_def build_response_def dict_get_def py_eq_iff)
  with v(2,4,5) show ?thesis by blast
qed

theorem verify_news_wellformed_witness:
  "10 \<le> length (strip (py ''The sky is blue.''))
   \<and> length (strip (py ''The sky is blue.'')) \<le> 5000
   \<and> map_of (verify_news full_config sample_world (py ''The sky is blue.'')) (py ''classification'')
       = Some (PStr (py ''Verified''))
   \<and> map_of (verify_news full_config sample_world (py ''The sky is blue.'')) (py ''confidence'')
       = Some (PFloat (Finite (9 / 10)))"
proof -
  have len: "length (strip (py ''The sky is blue.'')) = 16"
    by (simp add: strip_def py_def isspace_def)
  have text_given: "py ''y'' \<noteq> []" by (simp add: py_Nil_iff)
  have parsed: "loads_verdict (clean_response (py ''y''))
       = Inr (PDict [(py ''classification'', PStr (py ''Verified'')),
                     (py ''reason'', PStr (py ''ok'')),
                     (py ''confidence'', PFloat (Finite (9 / 10)))])"
    by (simp add: loads_verdict_def)
  have fits: "float_fits (dict_get [(py ''classification'', PStr (py ''Verified'')),
                     (py ''reason'', PStr (py ''ok'')),
                     (py ''confidence'', PFloat (Finite (9 / 10)))] (py ''confidence'') PNone)"
    by (simp add: dict_get_def py_eq_iff float_fits_def)
  obtain r where rep: "repair_result (PDict [(py ''classification'', PStr (py ''Verified'')),
                     (py ''reason'', PStr (py ''ok'')),
                     (py ''confidence'', PFloat (Finite (9 / 10)))])
         (collect_search_results full_config (tasks_env sample_world)
            (extract_key_claims full_config (extract_reply sample_world) (loads_fn sample_world)
               (py ''The sky is blue.''))) = Inr r"
    using repair_succeeds [OF fits] by blast
  have run: "verify_with_ai_and_search full_config sample_world (py ''The sky is blue.'') = r"
    unfolding verify_with_ai_and_search_def Let_def
    using ai_analysis_parsed [of full_config "py ''y''" loads_verdict _ _ ] full_config_configured(1) text_given parsed rep
    by (simp add: sample_world_def)
  have cls: "map_of r (py ''classification'') = Some (PStr (py ''Verified''))"
    using repair_classification [OF rep] by (simp add: dict_get_def valid_classifications_def)
  have conf: "map_of r (py ''confidence'') = Some (PFloat (Finite (9 / 10)))"
    using repair_confidence [OF rep]
    by (simp add: dict_get_def py_eq_iff is_number_def py_float_def clamp_Finite)
  have rsn: "map_of r (py ''reason'') = Some (PStr (py ''ok''))"
    using repair_reason [OF rep] by (simp add: dict_get_def py_eq_iff truthy_def py_Nil_iff)
  have nofault: "fault sample_world = None" by (simp add: sample_world_def)
  have "verify_news_try full_config sample_world (py ''The sky is blue.'')
     = build_response r sample_world"
    by (simp add: verify_news_try_def run nofault)
  then have
    "map_of (verify_news full_config sample_world (py ''The sky is blue.'')) (py ''classification'')
       = Some (PStr (py ''Verified''))
   \<and> map_of (verify_news full_config sample_world (py ''The sky is blue.'')) (py ''confidence'')
       = Some (PFloat (Finite (9 / 10)))"
    by (simp add: verify_news_def build_response_def cls conf rsn dict_get_def py_eq_iff)
  then show ?thesis
    using len verify_news_wellformed [where cfg = full_config and w = sample_world,
        of "py ''The sky is blue.''"]
    by simp
qed

text \<open>
  C2: when an exception escapes the awaited pipeline, or the response cannot be built
  from its result, \<open>verify_news\<close> returns the response with classification
  Unverifiable, the service-error reason, no sources, no search results, confidence 0.0,
  the timestamp of the handler and the time elapsed since the start; the result is a
  response, not an exception.
\<close>

theorem verify_news_degraded:
  assumes "fault w = Some e \<or> verify_news_try cfg w text = Inl e"
  shows "verify_news cfg w text =
     [(py ''classification'', PStr (py ''Unverifiable'')),
      (py ''reason'', PStr (py ''Service temporarily unavailable due to technical error.'')),
      (py ''sources'', PList []),
      (py ''search_results'', PList []),
      (py ''confidence'', PFloat (Finite 0)),
      (py ''timestamp'', PStr (now_isoformat w)),
      (py ''processing_time'', PFloat (Finite (of_int (end_time w - start_time w) / 1000000)))]"
  using assms
  by (auto simp: verify_news_def verify_news_try_def degraded_response_def processing_time_def)

theorem verify_news_degraded_witness:
  "fault faulty_world = Some (OtherError (py ''boom''))
   \<and> verify_news full_config faulty_world (py ''The sky is blue.'') =
     [(py ''classification'', PStr (py ''Unverifiable'')),
      (py ''reason'', PStr (py ''Service temporarily unavailable due to technical error.'')),
      (py ''sources'', PList []),
      (py ''search_results'', PList []),
      (py ''confidence'', PFloat (Finite 0)),
      (py ''timestamp'', PStr (py ''2025-01-01T00:00:00'')),
      (py ''processing_time'', PFloat (Finite (5 / 2)))]"
  using verify_news_degraded [where w = faulty_world and e = "OtherError (py ''boom'')" and cfg = full_config,
      of "py ''The sky is blue.''"]
  by (simp add: faulty_world_def sample_world_def)

end
